theory Spec2Isabelle
  imports Complex_Main "HOL-Library.Sublist"
begin

section \<open>Go primitives used by the status program\<close>

text \<open>
  The program is a single Go file. Go's \<open>int\<close> is modelled as \<open>int\<close>; where a Go
  operation can leave the 64-bit range the wrap-around is written out with \<open>wrap64\<close>.
  Strings are byte lists, as Go's \<open>len\<close> and indexing see them.
\<close>

definition wrap64 :: "int \<Rightarrow> int" where
  "wrap64 x = (x + 2 ^ 63) mod 2 ^ 64 - 2 ^ 63"

text \<open>Go's \<open>/\<close> and \<open>%\<close> on integers truncate towards zero.\<close>

definition quo :: "int \<Rightarrow> int \<Rightarrow> int" where
  "quo a b = sgn a * sgn b * (\<bar>a\<bar> div \<bar>b\<bar>)"

definition rem :: "int \<Rightarrow> int \<Rightarrow> int" where
  "rem a b = a - b * quo a b"

definition digit_char :: "nat \<Rightarrow> char" where
  "digit_char d =
     (if d = 0 then CHR ''0'' else if d = 1 then CHR ''1'' else if d = 2 then CHR ''2''
      else if d = 3 then CHR ''3'' else if d = 4 then CHR ''4'' else if d = 5 then CHR ''5''
      else if d = 6 then CHR ''6'' else if d = 7 then CHR ''7'' else if d = 8 then CHR ''8''
      else CHR ''9'')"

fun itoa_nat :: "nat \<Rightarrow> string" where
  "itoa_nat n = (if n < 10 then [digit_char n] else itoa_nat (n div 10) @ [digit_char (n mod 10)])"

declare itoa_nat.simps [simp del]

text \<open>\<open>strconv.Itoa\<close>: the decimal text of an integer, with a minus sign when negative.\<close>

definition itoa :: "int \<Rightarrow> string" where
  "itoa i = (if i < 0 then CHR ''-'' # itoa_nat (nat (- i)) else itoa_nat (nat i))"

text \<open>\<open>fmt.Sprintf("%wd", i)\<close>: the decimal text, padded with spaces on the left to width \<open>w\<close>.\<close>

definition fmt_d :: "nat \<Rightarrow> int \<Rightarrow> string" where
  "fmt_d w i = replicate (w - length (itoa i)) CHR '' '' @ itoa i"

text \<open>\<open>strings.Replace(s, old, new, 1)\<close>: the first occurrence of \<open>old\<close> is replaced.\<close>

fun replace_first :: "string \<Rightarrow> string \<Rightarrow> string \<Rightarrow> string" where
  "replace_first old new [] = (if old = [] then new else [])"
| "replace_first old new (c # cs) =
     (if prefix old (c # cs) then new @ drop (length old) (c # cs)
      else c # replace_first old new cs)"

section \<open>Constants\<close>

definition bpsSign :: string where "bpsSign = ''b''"
definition kibpsSign :: string where "kibpsSign = ''K''"
definition mibpsSign :: string where "mibpsSign = ''M''"
definition floatSeparator :: string where "floatSeparator = ''.''"

section \<open>The rate formatter\<close>

text \<open>
  \<open>fixed\<close> only divides and compares its argument, so no step of it can overflow and the
  model takes any integer.
\<close>

definition fixed :: "string \<Rightarrow> int \<Rightarrow> string" where
  "fixed pre rate =
     (if rate < 0 then pre @ '' ERR''
      else if rate \<ge> 1000 * 1024 * 1024 then pre @ '' ERR''
      else
        let (decDigit, rate', suf) =
              (if rate \<ge> 1000 * 1024
               then (rem (quo (quo rate 1024) 102) 10, quo rate (1024 * 1024), mibpsSign)
               else if rate \<ge> 1000
               then (rem (quo rate 102) 10, quo rate 1024, kibpsSign)
               else (0, rate, bpsSign));
            formated =
              (if rate' \<ge> 100 then '' '' @ fmt_d 3 rate'
               else if rate' \<ge> 10 then fmt_d 2 rate' @ ''.'' @ fmt_d 1 decDigit
               else '' '' @ fmt_d 1 rate' @ ''.'' @ fmt_d 1 decDigit)
        in pre @ replace_first ''.'' floatSeparator formated @ suf)"


text \<open>
  The three choices \<open>fixed\<close> makes for a rate inside its range, named so that the
  proofs below can speak about them one at a time: the value scaled into its unit, the
  decimal digit, the unit suffix, and the four characters built from them.
\<close>

definition scaled :: "int \<Rightarrow> int" where
  "scaled r =
     (if r \<ge> 1000 * 1024 then r div (1024 * 1024) else if r \<ge> 1000 then r div 1024 else r)"

definition decimal :: "int \<Rightarrow> int" where
  "decimal r =
     (if r \<ge> 1000 * 1024 then (r div 1024 div 102) mod 10
      else if r \<ge> 1000 then (r div 102) mod 10 else 0)"

definition unit_of :: "int \<Rightarrow> string" where
  "unit_of r = (if r \<ge> 1000 * 1024 then mibpsSign else if r \<ge> 1000 then kibpsSign else bpsSign)"

definition body :: "int \<Rightarrow> string" where
  "body r =
     (if scaled r \<ge> 100 then '' '' @ fmt_d 3 (scaled r)
      else if scaled r \<ge> 10 then fmt_d 2 (scaled r) @ ''.'' @ fmt_d 1 (decimal r)
      else '' '' @ fmt_d 1 (scaled r) @ ''.'' @ fmt_d 1 (decimal r))"

section \<open>More of the Go library\<close>

text \<open>A run-time panic of the Go program is a value of the model.\<close>

datatype panic = IndexOutOfRange | SliceBoundsOutOfRange

text \<open>\<open>xs[i]\<close> and \<open>s[0:n]\<close> panic outside the bounds.\<close>

definition index :: "'a list \<Rightarrow> nat \<Rightarrow> panic + 'a" where
  "index xs i = (if i < length xs then Inr (xs ! i) else Inl IndexOutOfRange)"

definition slice_to :: "string \<Rightarrow> nat \<Rightarrow> panic + string" where
  "slice_to s n = (if n \<le> length s then Inr (take n s) else Inl SliceBoundsOutOfRange)"

definition is_digit :: "char \<Rightarrow> bool" where
  "is_digit c = (c \<in> set ''0123456789'')"

definition digit_val :: "char \<Rightarrow> int" where
  "digit_val c = int (of_char c) - 48"

definition digits_val :: "string \<Rightarrow> int" where
  "digits_val ds = foldl (\<lambda>acc c. acc * 10 + digit_val c) 0 ds"

text \<open>
  \<open>strconv.Atoi\<close>: an optional sign and decimal digits; \<open>None\<close> stands for a non-nil
  error (no digits, another character, or a value outside the 64-bit range).
\<close>

definition Atoi :: "string \<Rightarrow> int option" where
  "Atoi s =
     (let (neg, ds) =
            (case s of
               [] \<Rightarrow> (False, [])
             | c # cs \<Rightarrow>
                 if c = CHR ''-'' then (True, cs)
                 else if c = CHR ''+'' then (False, cs) else (False, s))
      in if ds = [] \<or> \<not> list_all is_digit ds then None
         else
           let v = (if neg then - digits_val ds else digits_val ds)
           in if - (2 ^ 63) \<le> v \<and> v < 2 ^ 63 then Some v else None)"

text \<open>
  \<open>strings.TrimSpace\<close> removes the white space of Unicode from both ends. These are
  the UTF-8 encodings of the code points for which \<open>unicode.IsSpace\<close> holds.
\<close>

definition space_encodings :: "string list" where
  "space_encodings =
     [[CHR 0x09], [CHR 0x0A], [CHR 0x0B], [CHR 0x0C], [CHR 0x0D], [CHR 0x20],
      [CHR 0xC2, CHR 0x85], [CHR 0xC2, CHR 0xA0], [CHR 0xE1, CHR 0x9A, CHR 0x80],
      [CHR 0xE2, CHR 0x80, CHR 0x80], [CHR 0xE2, CHR 0x80, CHR 0x81],
      [CHR 0xE2, CHR 0x80, CHR 0x82], [CHR 0xE2, CHR 0x80, CHR 0x83],
      [CHR 0xE2, CHR 0x80, CHR 0x84], [CHR 0xE2, CHR 0x80, CHR 0x85],
      [CHR 0xE2, CHR 0x80, CHR 0x86], [CHR 0xE2, CHR 0x80, CHR 0x87],
      [CHR 0xE2, CHR 0x80, CHR 0x88], [CHR 0xE2, CHR 0x80, CHR 0x89],
      [CHR 0xE2, CHR 0x80, CHR 0x8A], [CHR 0xE2, CHR 0x80, CHR 0xA8],
      [CHR 0xE2, CHR 0x80, CHR 0xA9], [CHR 0xE2, CHR 0x80, CHR 0xAF],
      [CHR 0xE2, CHR 0x81, CHR 0x9F], [CHR 0xE3, CHR 0x80, CHR 0x80]]"

definition leading_space :: "string \<Rightarrow> nat" where
  "leading_space s =
     (case find (\<lambda>e. prefix e s) space_encodings of None \<Rightarrow> 0 | Some e \<Rightarrow> length e)"

function trim_left :: "string \<Rightarrow> string" where
  "trim_left s = (if leading_space s = 0 then s else trim_left (drop (leading_space s) s))"
  by pat_completeness auto
termination
proof (relation "measure length")
  show "wf (measure length)" by simp
next
  fix s :: string
  assume pos: "leading_space s \<noteq> 0"
  have "leading_space s \<le> length s"
    by (auto simp: leading_space_def prefix_def find_Some_iff split: option.split)
  with pos show "(drop (leading_space s) s, s) \<in> measure length" by simp
qed

declare trim_left.simps [simp del]

definition trailing_space :: "string \<Rightarrow> nat" where
  "trailing_space s =
     (case find (\<lambda>e. suffix e s) space_encodings of None \<Rightarrow> 0 | Some e \<Rightarrow> length e)"

function trim_right :: "string \<Rightarrow> string" where
  "trim_right s =
     (if trailing_space s = 0 then s else trim_right (take (length s - trailing_space s) s))"
  by pat_completeness auto
termination
proof (relation "measure length")
  show "wf (measure length)" by simp
next
  fix s :: string
  assume pos: "trailing_space s \<noteq> 0"
  have "trailing_space s \<le> length s"
    by (auto simp: trailing_space_def suffix_def find_Some_iff split: option.split)
  with pos show "(take (length s - trailing_space s) s, s) \<in> measure length" by simp
qed

declare trim_right.simps [simp del]

definition TrimSpace :: "string \<Rightarrow> string" where
  "TrimSpace s = trim_right (trim_left s)"

text \<open>\<open>strings.Trim(s, " ")\<close> removes the blanks at both ends.\<close>

definition Trim_blank :: "string \<Rightarrow> string" where
  "Trim_blank s = rev (dropWhile (\<lambda>c. c = CHR '' '') (rev (dropWhile (\<lambda>c. c = CHR '' '') s)))"

text \<open>\<open>strings.Join\<close>.\<close>

fun Join :: "string list \<Rightarrow> string \<Rightarrow> string" where
  "Join [] sep = []"
| "Join [x] sep = x"
| "Join (x # y # ys) sep = x @ sep @ Join (y # ys) sep"

subsection \<open>Regular expressions\<close>

text \<open>
  The fragment of Go's \<open>regexp\<close> syntax that the program's three patterns use. A star
  is only ever applied to a character class. \<open>matches\<close> lists the ways a pattern can
  match at the start of a text, each as the rest of the text and the groups captured,
  in the order of preference of Go's leftmost-first matching: a star is greedy, an
  alternation prefers its left branch. All literals of the patterns are ASCII, so
  matching bytes instead of code points gives the same result.
\<close>

datatype cls = AnyChar | NotNewline | Digit

datatype rx =
    Lit string
  | Cls cls
  | Star cls
  | Cat rx rx
  | Alt rx rx
  | Group nat rx

fun in_cls :: "cls \<Rightarrow> char \<Rightarrow> bool" where
  "in_cls AnyChar c = True"
| "in_cls NotNewline c = (c \<noteq> CHR 0x0A)"
| "in_cls Digit c = is_digit c"

type_synonym captures = "(nat \<times> string) list"

fun matches :: "rx \<Rightarrow> string \<Rightarrow> captures \<Rightarrow> (string \<times> captures) list" where
  "matches (Lit l) s caps = (if prefix l s then [(drop (length l) s, caps)] else [])"
| "matches (Cls k) s caps =
     (case s of [] \<Rightarrow> [] | c # cs \<Rightarrow> if in_cls k c then [(cs, caps)] else [])"
| "matches (Star k) s caps =
     map (\<lambda>n. (drop n s, caps)) (rev [0 ..< Suc (length (takeWhile (in_cls k) s))])"
| "matches (Cat a b) s caps = concat (map (\<lambda>(rest, c). matches b rest c) (matches a s caps))"
| "matches (Alt a b) s caps = matches a s caps @ matches b s caps"
| "matches (Group i a) s caps =
     map (\<lambda>(rest, c). (rest, (i, take (length s - length rest) s) # c)) (matches a s caps)"

text \<open>
  \<open>Regexp.FindStringSubmatch\<close> for a pattern with \<open>n\<close> groups: the leftmost match,
  as the matched text followed by the text of each group (empty for a group that took
  no part). No match is Go's \<open>nil\<close>, the slice of length 0.
\<close>

definition submatch_at :: "rx \<Rightarrow> nat \<Rightarrow> string \<Rightarrow> string list option" where
  "submatch_at r n s =
     (case matches r s [] of
        [] \<Rightarrow> None
      | (rest, caps) # _ \<Rightarrow>
          Some (take (length s - length rest) s #
                map (\<lambda>i. case map_of caps i of None \<Rightarrow> [] | Some g \<Rightarrow> g) [1 ..< Suc n]))"

fun FindStringSubmatch :: "rx \<Rightarrow> nat \<Rightarrow> string \<Rightarrow> string list" where
  "FindStringSubmatch r n [] = (case submatch_at r n [] of None \<Rightarrow> [] | Some m \<Rightarrow> m)"
| "FindStringSubmatch r n (c # cs) =
     (case submatch_at r n (c # cs) of None \<Rightarrow> FindStringSubmatch r n cs | Some m \<Rightarrow> m)"

fun Cats :: "rx list \<Rightarrow> rx" where
  "Cats [] = Lit []"
| "Cats [r] = r"
| "Cats (r # rs) = Cat r (Cats rs)"

subsection \<open>Wall-clock time\<close>

text \<open>
  A \<open>time.Time\<close> without monotonic reading is its number of nanoseconds since the zero
  time, a \<open>time.Duration\<close> a number of nanoseconds. \<open>Truncate\<close> rounds down to a multiple
  of the duration since the zero time and drops the monotonic reading, so that the
  \<open>Sub\<close> of the program compares wall-clock readings; \<open>Sub\<close> saturates at the ends of
  the 64-bit range of durations. The range of \<open>Time\<close> itself is not modelled.
\<close>

type_synonym Time = int
type_synonym Duration = int

definition Second :: Duration where
  "Second = 1000000000"

definition Truncate :: "Time \<Rightarrow> Duration \<Rightarrow> Time" where
  "Truncate t d = (if d \<le> 0 then t else t - t mod d)"

definition Add :: "Time \<Rightarrow> Duration \<Rightarrow> Time" where
  "Add t d = t + d"

definition Sub :: "Time \<Rightarrow> Time \<Rightarrow> Duration" where
  "Sub t u = (if t - u < - (2 ^ 63) then - (2 ^ 63) else if 2 ^ 63 - 1 < t - u then 2 ^ 63 - 1 else t - u)"

section \<open>The samplers\<close>

definition batterySign100 :: string where "batterySign100 = [CHR 0xEF, CHR 0x89, CHR 0x80]"
definition batterySign75 :: string where "batterySign75 = [CHR 0xEF, CHR 0x89, CHR 0x81]"
definition batterySign50 :: string where "batterySign50 = [CHR 0xEF, CHR 0x89, CHR 0x82]"
definition batterySign25 :: string where "batterySign25 = [CHR 0xEF, CHR 0x89, CHR 0x83]"
definition batterySign10 :: string where "batterySign10 = [CHR 0xEF, CHR 0x89, CHR 0x84]"
definition pluggedSign :: string where "pluggedSign = [CHR 0xEF, CHR 0x92, CHR 0x92]"
definition cpuSign :: string where "cpuSign = [CHR 0xEE, CHR 0x88, CHR 0xB4]"
definition cpuTempSign :: string where "cpuTempSign = [CHR 0xEF, CHR 0x8B, CHR 0x89]"
definition memSign :: string where "memSign = [CHR 0xEF, CHR 0x8B, CHR 0x9B]"
definition netReceivedSign :: string where "netReceivedSign = [CHR 0xE2, CHR 0xAE, CHR 0xAE]"
definition netTransmittedSign :: string where "netTransmittedSign = [CHR 0xE2, CHR 0xAE, CHR 0xAD]"
definition pingSign :: string where "pingSign = [CHR 0xE2, CHR 0xAD, CHR 0xBF]"
definition volSign :: string where "volSign = [CHR 0xEF, CHR 0x80, CHR 0xA8]"
definition mutedSign :: string where "mutedSign = [CHR 0xEF, CHR 0x91, CHR 0xA6]"
definition wifiSignFull :: string where
  "wifiSignFull = [CHR 0xEF, CHR 0x87, CHR 0xAB, CHR 0xE2, CHR 0xA1, CHR 0x86]"
definition wifiSignHalf :: string where
  "wifiSignHalf = [CHR 0xEF, CHR 0x87, CHR 0xAB, CHR 0xE2, CHR 0xA1, CHR 0x84]"
definition wifiSignLow :: string where
  "wifiSignLow = [CHR 0xEF, CHR 0x87, CHR 0xAB, CHR 0xE2, CHR 0xA1, CHR 0x80]"
definition wifiSignOff :: string where
  "wifiSignOff = [CHR 0xEF, CHR 0x87, CHR 0xAB, CHR 0xE2, CHR 0xA8, CHR 0xAF]"
definition keyboardSign :: string where "keyboardSign = [CHR 0xEF, CHR 0x84, CHR 0x9C]"
definition dateSeparator :: string where "dateSeparator = [CHR 0xEF, CHR 0x80, CHR 0x97]"
definition fieldSeparator :: string where "fieldSeparator = '' ''"

text \<open>The three icons that \<open>getDistroSign\<close> returns.\<close>

definition distroSignDefault :: string where "distroSignDefault = [CHR 0xEE, CHR 0x9C, CHR 0x92]"
definition distroSignArch :: string where "distroSignArch = [CHR 0xEF, CHR 0x8C, CHR 0x80]"
definition distroSignSlack :: string where "distroSignSlack = [CHR 0xEF, CHR 0x8C, CHR 0x8A]"

definition netDevs :: "string list" where
  "netDevs = [''eth0:'', ''eth1:'', ''wlan0:'', ''ppp0:'', ''wlp4s0:'']"

text \<open>
  What the program reads in one tick. \<open>None\<close> stands for a non-nil error of the call.
  \<^item> \<open>read_file\<close>: \<open>ioutil.ReadFile\<close>, the contents of a file;
  \<^item> \<open>open_lines\<close>: \<open>os.Open\<close> followed by a \<open>bufio.Scanner\<close>, the lines it delivers;
  \<^item> \<open>read_dir\<close>: \<open>ioutil.ReadDir\<close>, the names of the entries;
  \<^item> \<open>command_output\<close>: \<open>exec.Command(name, args...).Output()\<close>;
  \<^item> \<open>clock_text\<close>: the local time in the layout \<open>Mon Jan 02 15:04\<close>.
\<close>

record world =
  read_file :: "string \<Rightarrow> string option"
  open_lines :: "string \<Rightarrow> string list option"
  read_dir :: "string \<Rightarrow> string list option"
  command_output :: "string \<Rightarrow> string list \<Rightarrow> string option"
  clock_text :: string

text \<open>
  The scanning, arithmetic and printing of floating-point numbers and the scanning of
  \<open>fmt.Sscanf\<close> are taken as given. \<open>'f\<close> stands for \<open>float64\<close>, \<open>'g\<close> for \<open>float32\<close>.
  \<^item> \<open>sscanf_net\<close>: \<open>Sscanf(line, "%s %d %d %d %d %d %d %d %d %d", ...)\<close>, as the number of
    fields scanned and the values of the first, second and tenth; Sscanf stores each
    field as it goes, so a field that was not reached keeps its old value;
  \<^item> \<open>sscanf_f64\<close>, \<open>sscanf_f32\<close>: \<open>Sscanf(s, "%f", &x)\<close>, with \<open>None\<close> for an error;
  \<^item> \<open>sscanf_s_f64\<close>: \<open>Sscanf(line, "%s %f", &prop, &val)\<close>, with \<open>None\<close> for an error;
  \<^item> \<open>f64_of_int\<close>: a constant such as \<open>0.0\<close> or \<open>1024\<close> as a \<open>float64\<close>;
  \<^item> \<open>f64_to_int\<close>: the conversion \<open>int(x)\<close>;
  \<^item> \<open>fmt_f2\<close>: \<open>Sprintf("%.2f", x)\<close>;
  \<^item> \<open>load_percent\<close>: \<open>int(load*100.0/float32(cores))\<close>.
\<close>

record ('f, 'g) golib =
  sscanf_net :: "string \<Rightarrow> nat \<times> string \<times> int \<times> int"
  sscanf_f64 :: "string \<Rightarrow> 'f option"
  sscanf_f32 :: "string \<Rightarrow> 'g option"
  sscanf_s_f64 :: "string \<Rightarrow> (string \<times> 'f) option"
  f64_of_int :: "int \<Rightarrow> 'f"
  f64_add :: "'f \<Rightarrow> 'f \<Rightarrow> 'f"
  f64_sub :: "'f \<Rightarrow> 'f \<Rightarrow> 'f"
  f64_div :: "'f \<Rightarrow> 'f \<Rightarrow> 'f"
  f64_to_int :: "'f \<Rightarrow> int"
  fmt_f2 :: "'f \<Rightarrow> string"
  load_percent :: "'g \<Rightarrow> int \<Rightarrow> int"

subsection \<open>Network\<close>

text \<open>The counters that live from one tick to the next.\<close>

record netstate =
  rxOld :: int
  txOld :: int

text \<open>
  The scanning loop of \<open>updateNetUse\<close>. \<open>dev\<close>, \<open>rx\<close> and \<open>tx\<close> are declared outside
  the loop and the error of Sscanf is not looked at, so a line that scans only in part
  leaves the remaining variables at their values from the line before.
\<close>

fun netLoop ::
  "(string \<Rightarrow> nat \<times> string \<times> int \<times> int) \<Rightarrow> string list \<Rightarrow> string \<times> int \<times> int \<Rightarrow>
   int \<times> int \<Rightarrow> int \<times> int" where
  "netLoop scan [] (dev, rx, tx) (rxNow, txNow) = (rxNow, txNow)"
| "netLoop scan (line # rest) (dev, rx, tx) (rxNow, txNow) =
     (let (n, d, r, t) = scan line;
          dev' = (if 1 \<le> n then d else dev);
          rx' = (if 2 \<le> n then r else rx);
          tx' = (if 10 \<le> n then t else tx)
      in if dev' \<in> set netDevs
         then netLoop scan rest (dev', rx', tx') (wrap64 (rxNow + rx'), wrap64 (txNow + tx'))
         else netLoop scan rest (dev', rx', tx') (rxNow, txNow))"

definition pingFragment :: "('f, 'g) golib \<Rightarrow> world \<Rightarrow> string" where
  "pingFragment lib w =
     (case read_file w ''/home/john/tmp/avgping'' of
        None \<Rightarrow> []
      | Some avgping \<Rightarrow>
          (case sscanf_f64 lib avgping of
             None \<Rightarrow> '' '' @ pingSign @ ''0.0ms''
           | Some pingAvg \<Rightarrow> '' '' @ pingSign @ '' '' @ itoa (f64_to_int lib pingAvg) @ ''ms''))"

text \<open>
  \<open>updateNetUse\<close> returns its fragment and the counters after the call. The deferred
  assignment to \<open>rxOld\<close> and \<open>txOld\<close> is registered only after the file was opened, and
  runs after the result was computed from the old counters.
\<close>

definition updateNetUse :: "('f, 'g) golib \<Rightarrow> world \<Rightarrow> netstate \<Rightarrow> string \<times> netstate" where
  "updateNetUse lib w st =
     (case open_lines w ''/proc/net/dev'' of
        None \<Rightarrow> (netReceivedSign @ '' ERR '' @ netTransmittedSign @ '' ERR'', st)
      | Some lines \<Rightarrow>
          let (rxNow, txNow) = netLoop (sscanf_net lib) lines ([], 0, 0) (0, 0);
              ping = pingFragment lib w
          in (fixed netReceivedSign (wrap64 (rxNow - rxOld st)) @ '' '' @
              fixed netTransmittedSign (wrap64 (txNow - txOld st)) @ ping,
              st\<lparr>rxOld := rxNow, txOld := txNow\<rparr>))"

subsection \<open>Battery\<close>

definition powerSupply :: string where
  "powerSupply = ''/sys/class/power_supply/''"

definition readval :: "world \<Rightarrow> string \<Rightarrow> string \<Rightarrow> int" where
  "readval w name field =
     (let path = powerSupply @ name @ ''/'';
          parse = (\<lambda>file. case Atoi (TrimSpace file) of Some ret \<Rightarrow> ret | None \<Rightarrow> 0)
      in case read_file w (path @ ''energy_'' @ field) of
           Some tmp \<Rightarrow> parse tmp
         | None \<Rightarrow>
             (case read_file w (path @ ''charge_'' @ field) of
                Some tmp \<Rightarrow> parse tmp
              | None \<Rightarrow> 0))"

text \<open>The loop over the directory entries, summing into \<open>enFull\<close> and \<open>enNow\<close>.\<close>

fun battLoop :: "world \<Rightarrow> string list \<Rightarrow> int \<times> int \<Rightarrow> int \<times> int" where
  "battLoop w [] (enFull, enNow) = (enFull, enNow)"
| "battLoop w (name # batts) (enFull, enNow) =
     (if \<not> prefix ''BAT'' name then battLoop w batts (enFull, enNow)
      else battLoop w batts
             (wrap64 (enFull + readval w name ''full''), wrap64 (enNow + readval w name ''now'')))"

text \<open>
  The string that \<open>icon2\<close> starts with (the literal of line 203, U+F12A), and the
  choice of \<open>icon\<close> and \<open>icon2\<close>. \<open>icon2\<close> is emptied in two places only: plugged
  in with at most 98 percent, and unplugged with more than 75 and at most 100 percent.
\<close>

definition icon2Init :: string where
  "icon2Init = [CHR 0xEF, CHR 0x84, CHR 0xAA]"

definition powerIcons :: "string \<Rightarrow> int \<Rightarrow> string \<times> string" where
  "powerIcons plugged enPerc =
     (if plugged = [CHR ''1'', CHR 0x0A]
      then (pluggedSign, (if enPerc \<le> 98 then [] else icon2Init))
      else if enPerc \<le> 10 then (batterySign10, icon2Init)
      else if enPerc \<le> 25 then (batterySign25, icon2Init)
      else if enPerc \<le> 50 then (batterySign50, icon2Init)
      else if enPerc \<le> 75 then (batterySign75, icon2Init)
      else if enPerc \<le> 100 then (batterySign100, [])
      else (batterySign100, icon2Init))"

definition updatePower :: "world \<Rightarrow> string" where
  "updatePower w =
     (case read_file w (powerSupply @ ''AC/online'') of
        None \<Rightarrow> ''|ERR''
      | Some plugged \<Rightarrow>
          (case read_dir w powerSupply of
             None \<Rightarrow> ''|ERR''
           | Some batts \<Rightarrow>
               let (enFull, enNow) = battLoop w batts (0, 0)
               in if enFull = 0 then ''|ERR''
                  else
                    let enPerc = wrap64 (quo (wrap64 (enNow * 100)) enFull);
                        (icon, icon2) = powerIcons plugged enPerc
                    in icon @ icon2 @ fmt_d 3 enPerc @ ''%''))"

subsection \<open>Time to empty or full\<close>

text \<open>The pattern \<open>.*(\d\d:\d\d:\d\d).*\<close>.\<close>

definition timeRx :: rx where
  "timeRx =
     Cats [Star NotNewline,
           Group 1 (Cats [Cls Digit, Cls Digit, Lit '':'', Cls Digit, Cls Digit, Lit '':'',
                          Cls Digit, Cls Digit]),
           Star NotNewline]"

definition updatePowerTime :: "world \<Rightarrow> panic + string" where
  "updatePowerTime w =
     (case command_output w ''acpi'' [''-b''] of
        None \<Rightarrow> Inr ''unknown''
      | Some acpi \<Rightarrow>
          let acpiMatch = FindStringSubmatch timeRx 1 acpi
          in if length acpiMatch = 1 then Inr ''unknown''
             else (case index acpiMatch 1 of Inl p \<Rightarrow> Inl p | Inr t \<Rightarrow> slice_to t 5))"

subsection \<open>Processor load and memory\<close>

definition updateCPUUse :: "('f, 'g) golib \<Rightarrow> int \<Rightarrow> world \<Rightarrow> string" where
  "updateCPUUse lib cores w =
     (case read_file w ''/proc/loadavg'' of
        None \<Rightarrow> cpuSign @ ''ERR''
      | Some loadavg \<Rightarrow>
          (case sscanf_f32 lib loadavg of
             None \<Rightarrow> cpuSign @ ''ERR''
           | Some load \<Rightarrow> cpuSign @ fmt_d 3 (load_percent lib load cores) @ ''%''))"

text \<open>
  The loop of \<open>updateMemUse\<close>: it stops when \<open>done\<close> is 15 or the lines end, and
  \<open>None\<close> is the return of the ERR fragment from inside the loop. The variable
  \<open>total\<close> of the source is \<open>tot\<close> here.
\<close>

fun memLoop ::
  "('f, 'g) golib \<Rightarrow> string list \<Rightarrow> 'f \<times> 'f \<times> int \<Rightarrow> ('f \<times> 'f \<times> int) option" where
  "memLoop lib [] (used, tot, done) = Some (used, tot, done)"
| "memLoop lib (line # rest) (used, tot, done) =
     (if done = 15 then Some (used, tot, done)
      else
        (case sscanf_s_f64 lib line of
           None \<Rightarrow> None
         | Some (prop, val) \<Rightarrow>
             if prop = ''MemTotal:'' then memLoop lib rest (f64_add lib used val, val, or done 1)
             else if prop = ''MemFree:'' then memLoop lib rest (f64_sub lib used val, tot, or done 2)
             else if prop = ''Buffers:'' then memLoop lib rest (f64_sub lib used val, tot, or done 4)
             else if prop = ''Cached:'' then memLoop lib rest (f64_sub lib used val, tot, or done 8)
             else memLoop lib rest (used, tot, done)))"

definition updateMemUse :: "('f, 'g) golib \<Rightarrow> world \<Rightarrow> string" where
  "updateMemUse lib w =
     (case open_lines w ''/proc/meminfo'' of
        None \<Rightarrow> memSign @ ''ERR''
      | Some lines \<Rightarrow>
          (case memLoop lib lines (f64_of_int lib 0, f64_of_int lib 0, 0) of
             None \<Rightarrow> memSign @ ''ERR''
           | Some (used, tot, done) \<Rightarrow>
               let used' = f64_div lib (f64_div lib used (f64_of_int lib 1024)) (f64_of_int lib 1024);
                   tot' = f64_div lib (f64_div lib tot (f64_of_int lib 1024)) (f64_of_int lib 1024)
               in memSign @ '' '' @ fmt_f2 lib used' @ ''/'' @ fmt_f2 lib tot' @ ''GB''))"

subsection \<open>Volume, wireless signal, temperature, keyboard, distribution\<close>

text \<open>
  The pattern
  \<open>(?s).*volume: front-left: .* (\d*%) /.*front-right: .* (\d*%).*muted: (yes|no).*\<close>.
\<close>

definition mutedRx :: rx where
  "mutedRx =
     Cats [Star AnyChar, Lit ''volume: front-left: '', Star AnyChar, Lit '' '',
           Group 1 (Cat (Star Digit) (Lit ''%'')), Lit '' /'', Star AnyChar,
           Lit ''front-right: '', Star AnyChar, Lit '' '',
           Group 2 (Cat (Star Digit) (Lit ''%'')), Star AnyChar, Lit ''muted: '',
           Group 3 (Alt (Lit ''yes'') (Lit ''no'')), Star AnyChar]"

definition updateVolume :: "world \<Rightarrow> panic + string" where
  "updateVolume w =
     (case command_output w ''pacmd'' [''list-sinks''] of
        None \<Rightarrow> Inr (mutedSign @ '' ERR'')
      | Some pacmd \<Rightarrow>
          let pacmdMatch = FindStringSubmatch mutedRx 3 pacmd
          in (case index pacmdMatch 3 of
                Inl p \<Rightarrow> Inl p
              | Inr muted \<Rightarrow>
                  let sign = (if muted = ''yes'' then mutedSign else volSign)
                  in (case index pacmdMatch 1 of
                        Inl p \<Rightarrow> Inl p
                      | Inr vol \<Rightarrow> Inr (sign @ '' '' @ vol))))"

definition awkProgram :: string where
  "awkProgram = ''NR==3 {printf '' @ [CHR 0x22] @ ''%3.0f'' @ [CHR 0x22] @ '' ,($3/70)*100}''"

definition updateWifi :: "world \<Rightarrow> string" where
  "updateWifi w =
     (case command_output w ''awk'' [awkProgram, ''/proc/net/wireless''] of
        None \<Rightarrow> wifiSignOff @ '' ERR''
      | Some out \<Rightarrow>
          let strength = Trim_blank out
          in if strength \<noteq> []
             then (case Atoi strength of
                     None \<Rightarrow> wifiSignOff @ '' ERR''
                   | Some strengthInt \<Rightarrow>
                       let wifiSign =
                             (if strengthInt > 70 then wifiSignFull
                              else if strengthInt > 50 then wifiSignHalf
                              else if strengthInt > 20 then wifiSignLow
                              else wifiSignOff)
                       in if strengthInt \<ge> 100 then wifiSign @ [] @ strength @ ''%''
                          else if strengthInt \<ge> 10 then wifiSign @ '' '' @ strength @ ''%''
                          else wifiSign @ ''  '' @ strength @ ''%'')
             else wifiSignOff @ '' 0%'')"

text \<open>The scanner loops of \<open>updateCPUTemp\<close> and \<open>updateKeyboard\<close> keep the last line.\<close>

definition last_line :: "string \<Rightarrow> string list \<Rightarrow> string" where
  "last_line start lines = foldl (\<lambda>kept line. line) start lines"

definition updateCPUTemp :: "world \<Rightarrow> string" where
  "updateCPUTemp w =
     (case open_lines w ''/sys/class/thermal/thermal_zone1/temp'' of
        None \<Rightarrow> cpuTempSign @ '' ERR''
      | Some lines \<Rightarrow>
          let tempStr = last_line '' ERR'' lines
          in (case Atoi tempStr of
                None \<Rightarrow> cpuTempSign @ '' ERR''
              | Some temp \<Rightarrow>
                  cpuTempSign @ '' '' @ itoa (quo temp 1000) @ [CHR 0xC2, CHR 0xB0] @ ''C''))"

definition updateKeyboard :: "world \<Rightarrow> string" where
  "updateKeyboard w =
     (case open_lines w ''/home/john/.config/xmodmap_switcher/state'' of
        None \<Rightarrow> keyboardSign @ '' default''
      | Some lines \<Rightarrow> keyboardSign @ '' '' @ last_line ''default'' lines)"

text \<open>The pattern \<open>.*(arch|slack).*\<close>.\<close>

definition distroRx :: rx where
  "distroRx = Cats [Star NotNewline, Group 1 (Alt (Lit ''arch'') (Lit ''slack'')), Star NotNewline]"

definition getDistroSign :: "world \<Rightarrow> panic + string" where
  "getDistroSign w =
     (case command_output w ''uname'' [''-a''] of
        None \<Rightarrow> Inr distroSignDefault
      | Some uname \<Rightarrow>
          let distroMatch = FindStringSubmatch distroRx 1 uname
          in if length distroMatch = 1 then Inr distroSignDefault
             else (case index distroMatch 1 of
                     Inl p \<Rightarrow> Inl p
                   | Inr d \<Rightarrow>
                       if d = ''arch'' then Inr distroSignArch
                       else if d = ''slack'' then Inr distroSignSlack
                       else Inr distroSignDefault))"

section \<open>The tick loop\<close>

text \<open>
  One round of the loop of \<open>main\<close>: the samplers in the order of the source, the line
  joined from their fragments and handed to \<open>xsetroot\<close> (whose outcome the program
  ignores), and the counters after the round. A panic of a sampler ends the program.
\<close>

definition tick ::
  "('f, 'g) golib \<Rightarrow> int \<Rightarrow> string \<Rightarrow> world \<Rightarrow> netstate \<Rightarrow> panic + string \<times> netstate" where
  "tick lib cores distroSign w st =
     (case updateVolume w of
        Inl p \<Rightarrow> Inl p
      | Inr volume \<Rightarrow>
          let wifi = updateWifi w;
              (net, st') = updateNetUse lib w st;
              cpu = updateCPUUse lib cores w;
              temp = updateCPUTemp w;
              mem = updateMemUse lib w;
              power = updatePower w
          in (case updatePowerTime w of
                Inl p \<Rightarrow> Inl p
              | Inr powerTime \<Rightarrow>
                  Inr (Join [[], volume, wifi, net, cpu, temp, mem, power, powerTime,
                             dateSeparator @ '' '' @ clock_text w, updateKeyboard w, distroSign]
                         fieldSeparator,
                       st')))"

text \<open>The argument of \<open>time.Sleep\<close> at the end of a round.\<close>

definition sleepDuration :: "Time \<Rightarrow> Duration" where
  "sleepDuration now = Sub (Add (Truncate now Second) Second) now"

section \<open>What the claims speak about\<close>

text \<open>
  The four labels of the memory file, in the order of their flags 1, 2, 4 and 8, and the
  sums as the description of the sampler words them: over the scanned lines of the whole
  file, \<open>used\<close> is the total minus the free, buffer and cache figures, and a label
  that does not occur adds nothing.
\<close>

definition memLabels :: "string list" where
  "memLabels = [''MemTotal:'', ''MemFree:'', ''Buffers:'', ''Cached:'']"

definition memAccumulate ::
  "('f, 'g) golib \<Rightarrow> (string \<times> 'f) list \<Rightarrow> 'f \<times> 'f \<Rightarrow> 'f \<times> 'f" where
  "memAccumulate lib pairs start =
     foldl (\<lambda>(used, tot) (prop, val).
              if prop = ''MemTotal:'' then (f64_add lib used val, val)
              else if prop = ''MemFree:'' \<or> prop = ''Buffers:'' \<or> prop = ''Cached:''
              then (f64_sub lib used val, tot)
              else (used, tot))
       start pairs"

definition gigabytes :: "('f, 'g) golib \<Rightarrow> 'f \<Rightarrow> 'f" where
  "gigabytes lib x = f64_div lib (f64_div lib x (f64_of_int lib 1024)) (f64_of_int lib 1024)"

text \<open>
  The summed reading of one field (\<open>full\<close> or \<open>now\<close>) over the entries of the
  directory whose name starts with \<open>BAT\<close>, in Go's 64-bit addition.
\<close>

definition summedReading :: "world \<Rightarrow> string \<Rightarrow> string list \<Rightarrow> int" where
  "summedReading w field batts =
     foldl (\<lambda>acc name. wrap64 (acc + readval w name field)) 0 (filter (prefix ''BAT'') batts)"

text \<open>Every source of a tick is missing.\<close>

definition all_absent :: "world \<Rightarrow> bool" where
  "all_absent w =
     (command_output w ''pacmd'' [''list-sinks''] = None \<and>
      command_output w ''awk'' [awkProgram, ''/proc/net/wireless''] = None \<and>
      open_lines w ''/proc/net/dev'' = None \<and>
      read_file w ''/proc/loadavg'' = None \<and>
      open_lines w ''/sys/class/thermal/thermal_zone1/temp'' = None \<and>
      open_lines w ''/proc/meminfo'' = None \<and>
      read_file w (powerSupply @ ''AC/online'') = None \<and>
      command_output w ''acpi'' [''-b''] = None \<and>
      open_lines w ''/home/john/.config/xmodmap_switcher/state'' = None)"

section \<open>A library instance and concrete inputs\<close>

text \<open>
  An instance of \<open>golib\<close> to run the samplers on concrete inputs. Floating-point
  numbers are the rationals they denote, and every operation rounds its exact result to
  the nearest number with 53 (\<open>float64\<close>) or 24 (\<open>float32\<close>) significant bits, ties to
  even, as IEEE 754 arithmetic does for results in the normal range. Infinities, NaN,
  negative zero, overflow and subnormal numbers are outside this instance. The scanners
  are not \<open>fmt.Sscanf\<close> in general: they split a line at blanks and tabs and read a
  whole field as a decimal numeral, which is what Sscanf does on lines of blank-separated
  fields whose numbers are plain decimal numerals, the only lines the instance is run
  on. The theorems about all inputs are stated for every \<open>golib\<close>, not for this one.
\<close>

definition round_half_even :: "rat \<Rightarrow> int" where
  "round_half_even q =
     (let f = \<lfloor>q\<rfloor>; d = q - of_int f
      in if d < 1 / 2 then f else if 1 / 2 < d then f + 1 else if even f then f else f + 1)"

definition pow2 :: "int \<Rightarrow> rat" where
  "pow2 e = (if 0 \<le> e then 2 ^ nat e else 1 / 2 ^ nat (- e))"

function bit_length :: "int \<Rightarrow> int" where
  "bit_length n = (if n \<le> 0 then 0 else 1 + bit_length (n div 2))"
  by pat_completeness auto
termination
  by (relation "measure nat") auto

declare bit_length.simps [simp del]

text \<open>For \<open>0 < x\<close>, the exponent \<open>e\<close> with \<open>2 ^ e \<le> x < 2 ^ (e + 1)\<close>.\<close>

definition ilog2 :: "rat \<Rightarrow> int" where
  "ilog2 x =
     (if 1 \<le> x then bit_length \<lfloor>x\<rfloor> - 1 else - bit_length (\<lceil>1 / x\<rceil> - 1))"

definition round_bin :: "int \<Rightarrow> rat \<Rightarrow> rat" where
  "round_bin p x =
     (if x = 0 then 0
      else let u = pow2 (ilog2 \<bar>x\<bar> - (p - 1)) in of_int (round_half_even (x / u)) * u)"

definition trunc_rat :: "rat \<Rightarrow> int" where
  "trunc_rat x = (if 0 \<le> x then \<lfloor>x\<rfloor> else \<lceil>x\<rceil>)"

text \<open>
  \<open>%.2f\<close> prints the decimal numeral with two digits after the point that is nearest
  to the value, ties to even, with the sign of the value.
\<close>

definition fmt_f2_exact :: "rat \<Rightarrow> string" where
  "fmt_f2_exact x =
     (let n = round_half_even (\<bar>x\<bar> * 100)
      in (if x < 0 then ''-'' else []) @ itoa (n div 100) @ ''.'' @
         [digit_char (nat (n mod 100 div 10)), digit_char (nat (n mod 10))])"

fun fields_from :: "string \<Rightarrow> string \<Rightarrow> string list" where
  "fields_from cur [] = (if cur = [] then [] else [cur])"
| "fields_from cur (c # cs) =
     (if c = CHR '' '' \<or> c = CHR 0x09
      then (if cur = [] then fields_from [] cs else cur # fields_from [] cs)
      else fields_from (cur @ [c]) cs)"

definition fields :: "string \<Rightarrow> string list" where
  "fields s = fields_from [] s"

fun leading_ints :: "string list \<Rightarrow> int list" where
  "leading_ints [] = []"
| "leading_ints (f # fs) = (case Atoi f of None \<Rightarrow> [] | Some i \<Rightarrow> i # leading_ints fs)"

definition scan_net_fields :: "string \<Rightarrow> nat \<times> string \<times> int \<times> int" where
  "scan_net_fields line =
     (case fields line of
        [] \<Rightarrow> (0, [], 0, 0)
      | d # rest \<Rightarrow>
          let nums = leading_ints (take 9 rest)
          in (Suc (length nums), d,
              (case nums of [] \<Rightarrow> 0 | r # _ \<Rightarrow> r),
              (if length nums = 9 then last nums else 0)))"

definition parse_decimal :: "string \<Rightarrow> rat option" where
  "parse_decimal s =
     (let (neg, u) =
            (case s of
               [] \<Rightarrow> (False, [])
             | c # cs \<Rightarrow>
                 if c = CHR ''-'' then (True, cs)
                 else if c = CHR ''+'' then (False, cs) else (False, s));
          ip = takeWhile is_digit u;
          r = dropWhile is_digit u;
          fp = (case r of [] \<Rightarrow> [] | c # cs \<Rightarrow> if c = CHR ''.'' then cs else [CHR ''x''])
      in if (ip = [] \<and> fp = []) \<or> \<not> list_all is_digit fp then None
         else
           let v = of_int (digits_val ip) + of_int (digits_val fp) / 10 ^ length fp
           in Some (if neg then - v else v))"

definition binary_lib :: "(rat, rat) golib" where
  "binary_lib =
     \<lparr>sscanf_net = scan_net_fields,
      sscanf_f64 =
        (\<lambda>s. case fields s of [] \<Rightarrow> None | f # _ \<Rightarrow> map_option (round_bin 53) (parse_decimal f)),
      sscanf_f32 =
        (\<lambda>s. case fields s of [] \<Rightarrow> None | f # _ \<Rightarrow> map_option (round_bin 24) (parse_decimal f)),
      sscanf_s_f64 =
        (\<lambda>s. case fields s of
                p # f # _ \<Rightarrow> map_option (\<lambda>v. (p, round_bin 53 v)) (parse_decimal f)
              | _ \<Rightarrow> None),
      f64_of_int = (\<lambda>i. round_bin 53 (of_int i)),
      f64_add = (\<lambda>a b. round_bin 53 (a + b)),
      f64_sub = (\<lambda>a b. round_bin 53 (a - b)),
      f64_div = (\<lambda>a b. round_bin 53 (a / b)),
      f64_to_int = trunc_rat,
      fmt_f2 = fmt_f2_exact,
      load_percent =
        (\<lambda>load cores.
           trunc_rat (round_bin 24 (round_bin 24 (load * 100) / round_bin 24 (of_int cores))))\<rparr>"

definition absent :: world where
  "absent =
     \<lparr>read_file = (\<lambda>p. None), open_lines = (\<lambda>p. None), read_dir = (\<lambda>p. None),
      command_output = (\<lambda>name args. None), clock_text = ''Sat Oct 31 15:30''\<rparr>"

definition meminfo_world :: world where
  "meminfo_world =
     absent\<lparr>open_lines := (\<lambda>p.
       if p = ''/proc/meminfo''
       then Some [''MemTotal: 16000000'', ''MemFree: 8000000'', ''Buffers: 1000000'',
                  ''Cached: 2000000'']
       else None)\<rparr>"

definition meminfo_short :: world where
  "meminfo_short =
     absent\<lparr>open_lines := (\<lambda>p.
       if p = ''/proc/meminfo''
       then Some [''MemTotal: 16000000'', ''MemFree: 8000000'', ''Active: 5'']
       else None)\<rparr>"

definition battery_world :: world where
  "battery_world =
     absent\<lparr>
       read_file := map_of
         [(''/sys/class/power_supply/AC/online'', [CHR ''0'', CHR 0x0A]),
          (''/sys/class/power_supply/BAT0/energy_full'', ''3000'' @ [CHR 0x0A]),
          (''/sys/class/power_supply/BAT0/energy_now'', ''1000'' @ [CHR 0x0A]),
          (''/sys/class/power_supply/BAT1/charge_full'', ''2000'' @ [CHR 0x0A]),
          (''/sys/class/power_supply/BAT1/charge_now'', ''1500'' @ [CHR 0x0A])],
       read_dir := map_of [(''/sys/class/power_supply/'', [''AC'', ''BAT0'', ''BAT1''])]\<rparr>"

definition acpi_world :: "string \<Rightarrow> world" where
  "acpi_world out =
     absent\<lparr>command_output := (\<lambda>name args.
       if name = ''acpi'' \<and> args = [''-b''] then Some out else None)\<rparr>"

definition net_dev_lines :: "string list" where
  "net_dev_lines =
     [''Inter-|   Receive    |  Transmit'', '' face |bytes    packets errs'',
      ''  eth0: 5000 1 2 3 4 5 6 7 1200 9 9'', ''lo: 77 1 2 3 4 5 6 7 88 9 9'']"

definition net_world :: "string list \<Rightarrow> world" where
  "net_world lines =
     absent\<lparr>open_lines := (\<lambda>p. if p = ''/proc/net/dev'' then Some lines else None)\<rparr>"

section \<open>Integer arithmetic and decimal text\<close>

lemma quo_nonneg: "0 \<le> a \<Longrightarrow> 0 < b \<Longrightarrow> quo a b = a div b"
  by (cases "a = 0") (simp_all add: quo_def)

lemma rem_nonneg: "0 \<le> a \<Longrightarrow> 0 < b \<Longrightarrow> rem a b = a mod b"
  by (simp add: rem_def quo_nonneg minus_mult_div_eq_mod)

lemma length_itoa_nat_1: "n < 10 \<Longrightarrow> length (itoa_nat n) = 1"
  by (simp add: itoa_nat.simps)

lemma length_itoa_nat_2: "10 \<le> n \<Longrightarrow> n < 100 \<Longrightarrow> length (itoa_nat n) = 2"
  by (subst itoa_nat.simps) (simp add: length_itoa_nat_1)

lemma length_itoa_nat_3: "100 \<le> n \<Longrightarrow> n < 1000 \<Longrightarrow> length (itoa_nat n) = 3"
  by (subst itoa_nat.simps) (simp add: length_itoa_nat_2)

lemma point_notin_itoa_nat: "CHR ''.'' \<notin> set (itoa_nat n)"
proof (induction n rule: itoa_nat.induct)
  case (1 n)
  show ?case
  proof (cases "n < 10")
    case True
    then show ?thesis by (simp add: itoa_nat.simps digit_char_def)
  next
    case False
    with 1 show ?thesis
      by (subst itoa_nat.simps) (simp add: digit_char_def)
  qed
qed

lemma length_fmt_d_1: "0 \<le> i \<Longrightarrow> i < 10 \<Longrightarrow> length (fmt_d (Suc 0) i) = Suc 0"
  by (simp add: fmt_d_def itoa_def length_itoa_nat_1)

lemma length_fmt_d_2: "10 \<le> i \<Longrightarrow> i < 100 \<Longrightarrow> length (fmt_d 2 i) = 2"
  by (simp add: fmt_d_def itoa_def length_itoa_nat_2)

lemma length_fmt_d_3: "100 \<le> i \<Longrightarrow> i < 1000 \<Longrightarrow> length (fmt_d 3 i) = 3"
  by (simp add: fmt_d_def itoa_def length_itoa_nat_3)

lemma point_notin_fmt_d: "0 \<le> i \<Longrightarrow> CHR ''.'' \<notin> set (fmt_d w i)"
  by (simp add: fmt_d_def itoa_def point_notin_itoa_nat)

lemma replace_first_same: "replace_first old old s = s"
  by (induction s) (auto simp: prefix_def)

lemma replace_point: "replace_first ''.'' floatSeparator s = s"
  by (simp add: floatSeparator_def replace_first_same)

section \<open>The rate formatter: shape of the result\<close>

lemma fixed_in_range:
  assumes "0 \<le> r" "r < 1000 * 1024 * 1024"
  shows "fixed pre r = pre @ body r @ unit_of r"
  using assms
  by (simp add: fixed_def body_def scaled_def decimal_def unit_of_def replace_point
      quo_nonneg rem_nonneg Let_def)

lemma fixed_out_of_range:
  assumes "r < 0 \<or> 1000 * 1024 * 1024 \<le> r"
  shows "fixed pre r = pre @ '' ERR''"
  using assms by (auto simp: fixed_def)

lemma scaled_bounds:
  "0 \<le> r \<Longrightarrow> r < 1000 * 1024 * 1024 \<Longrightarrow> 0 \<le> scaled r \<and> scaled r < 1000"
  by (auto simp: scaled_def)

lemma decimal_bounds: "0 \<le> decimal r \<and> decimal r < 10"
  by (auto simp: decimal_def)

lemma length_body: "0 \<le> r \<Longrightarrow> r < 1000 * 1024 * 1024 \<Longrightarrow> length (body r) = 4"
  using scaled_bounds [of r] decimal_bounds [of r]
  by (simp add: body_def length_fmt_d_1 length_fmt_d_2 length_fmt_d_3)

lemma length_unit_of: "length (unit_of r) = 1"
  by (simp add: unit_of_def bpsSign_def kibpsSign_def mibpsSign_def)

lemma unit_of_cases: "unit_of r = bpsSign \<or> unit_of r = kibpsSign \<or> unit_of r = mibpsSign"
  by (simp add: unit_of_def)

lemma length_signs: "length bpsSign = 1" "length kibpsSign = 1" "length mibpsSign = 1"
  by (simp_all add: bpsSign_def kibpsSign_def mibpsSign_def)

text \<open>
  C1. \<open>fixed\<close> answers with the prefix followed by \<open>" ERR"\<close> exactly when the rate is
  negative or at least 1000 * 1024 * 1024. Exactly for the other rates the answer is the
  prefix, four formatted characters and one of the three unit suffixes, which is one
  character longer than the ERR form and so never equal to it.
\<close>

theorem fixed_err_iff:
  "((fixed pre r = pre @ '' ERR'') = (r < 0 \<or> 1000 * 1024 * 1024 \<le> r)) \<and>
   ((\<exists>b. length b = 4 \<and>
      (fixed pre r = pre @ b @ bpsSign \<or> fixed pre r = pre @ b @ kibpsSign \<or>
       fixed pre r = pre @ b @ mibpsSign))
    = (0 \<le> r \<and> r < 1000 * 1024 * 1024))" (is "?A \<and> ?B")
proof
  show ?A
  proof (cases "r < 0 \<or> 1000 * 1024 * 1024 \<le> r")
    case True
    then show ?thesis by (simp add: fixed_out_of_range)
  next
    case False
    then have "length (fixed pre r) = length pre + 5"
      by (simp add: fixed_in_range length_body length_unit_of)
    then have "fixed pre r \<noteq> pre @ '' ERR''" by auto
    with False show ?thesis by simp
  qed
  show ?B
  proof (cases "r < 0 \<or> 1000 * 1024 * 1024 \<le> r")
    case True
    then have "length (fixed pre r) = length pre + 4"
      by (simp add: fixed_out_of_range)
    then have "\<not> (\<exists>b. length b = 4 \<and>
      (fixed pre r = pre @ b @ bpsSign \<or> fixed pre r = pre @ b @ kibpsSign \<or>
       fixed pre r = pre @ b @ mibpsSign))"
      by (auto simp: length_signs)
    with True show ?thesis by auto
  next
    case False
    then have "fixed pre r = pre @ body r @ unit_of r" "length (body r) = 4"
      by (simp_all add: fixed_in_range length_body)
    with unit_of_cases [of r] have "\<exists>b. length b = 4 \<and>
      (fixed pre r = pre @ b @ bpsSign \<or> fixed pre r = pre @ b @ kibpsSign \<or>
       fixed pre r = pre @ b @ mibpsSign)"
      by auto
    with False show ?thesis by auto
  qed
qed

lemma fmt_d_1_zero: "fmt_d (Suc 0) 0 = ''0''"
  by (simp add: fmt_d_def itoa_def itoa_nat.simps digit_char_def)

lemma fmt_d_2_small: "0 \<le> i \<Longrightarrow> i < 10 \<Longrightarrow> CHR '' '' # fmt_d (Suc 0) i = fmt_d 2 i"
  by (simp add: fmt_d_def itoa_def length_itoa_nat_1)

lemma body_bps:
  assumes "0 \<le> r" "r < 1000"
  shows "body r = (if r < 100 then fmt_d 2 r @ ''.0'' else '' '' @ fmt_d 3 r)"
  using assms by (simp add: body_def scaled_def decimal_def fmt_d_1_zero fmt_d_2_small)

text \<open>
  C2, as the code has it. For a rate from 0 up to 999 the answer ends in the B/s marker.
  From 100 on the formatted part is a blank and the rate in a field of width 3, free of
  the decimal point. Below 100 it is the rate in a field of width 2, the decimal point
  and the decimal digit 0, which keeps the width fixed.
\<close>

theorem fixed_bps_point:
  assumes "0 \<le> r" "r < 1000"
  shows "fixed pre r =
           (if r < 100 then pre @ fmt_d 2 r @ ''.0'' @ bpsSign
            else pre @ '' '' @ fmt_d 3 r @ bpsSign) \<and>
         suffix bpsSign (fixed pre r) \<and>
         (CHR ''.'' \<in> set (drop (length pre) (fixed pre r))) = (r < 100) \<and>
         CHR ''.'' \<notin> set (fmt_d 2 r) \<and> CHR ''.'' \<notin> set (fmt_d 3 r)"
proof -
  from assms have eq: "fixed pre r = pre @ body r @ bpsSign"
    by (simp add: fixed_in_range unit_of_def)
  have shape: "body r = (if r < 100 then fmt_d 2 r @ ''.0'' else '' '' @ fmt_d 3 r)"
    using assms by (rule body_bps)
  have no_point: "CHR ''.'' \<notin> set (fmt_d 2 r)" "CHR ''.'' \<notin> set (fmt_d 3 r)"
    using assms by (simp_all add: point_notin_fmt_d)
  have "(CHR ''.'' \<in> set (body r)) = (r < 100)"
    using no_point by (simp add: shape)
  then show ?thesis
    using no_point by (simp add: eq shape suffix_def bpsSign_def)
qed

theorem fixed_bps_point_witness:
  "(0::int) \<le> 250 \<and> (250::int) < 1000 \<and> fixed ''rx'' 250 = ''rx 250b'' \<and>
   (0::int) \<le> 37 \<and> (37::int) < 1000 \<and> fixed ''rx'' 37 = ''rx37.0b'' \<and>
   (0::int) \<le> 7 \<and> (7::int) < 1000 \<and> fixed ''rx'' 7 = ''rx 7.0b''"
proof -
  have d: "fmt_d 3 250 = ''250''" "fmt_d 2 37 = ''37''" "fmt_d 2 7 = '' 7''"
    by (simp_all add: fmt_d_def itoa_def itoa_nat.simps digit_char_def)
  have "fixed ''rx'' 250 = ''rx 250b''"
    using fixed_bps_point [of 250 "''rx''", THEN conjunct1] by (simp add: d bpsSign_def)
  moreover have "fixed ''rx'' 37 = ''rx37.0b''"
    using fixed_bps_point [of 37 "''rx''", THEN conjunct1] by (simp add: d bpsSign_def)
  moreover have "fixed ''rx'' 7 = ''rx 7.0b''"
    using fixed_bps_point [of 7 "''rx''", THEN conjunct1] by (simp add: d bpsSign_def)
  ultimately show ?thesis by simp
qed

text \<open>
  The rate 5 lies in the range of C2 and its rendering \<open>" 5.0b"\<close> contains a decimal
  point.
\<close>

theorem fixed_bps_point_counterexample:
  "(0::int) \<le> 5 \<and> (5::int) < 1000 \<and> fixed [] 5 = '' 5.0b'' \<and> CHR ''.'' \<in> set (fixed [] 5)"
  by (simp add: fixed_def fmt_d_def itoa_def itoa_nat.simps digit_char_def
      floatSeparator_def bpsSign_def)

text \<open>
  C3. For every rate from 0 up to, and not including, 1000 * 1024 * 1024 the answer is
  five characters longer than the prefix, whatever the prefix is.
\<close>

theorem fixed_width:
  assumes "0 \<le> r" "r < 1000 * 1024 * 1024"
  shows "length (fixed pre r) = length pre + 5"
  using assms by (simp add: fixed_in_range length_body length_unit_of)

theorem fixed_width_witness:
  "(0::int) \<le> 1536 \<and> (1536::int) < 1000 * 1024 * 1024 \<and>
   length (fixed ''rx'' 1536) = length ''rx'' + 5"
  using fixed_width [of 1536 "''rx''"] by simp

section \<open>The power-time sampler\<close>

lemma updatePowerTime_match:
  "updatePowerTime
     (acpi_world (''Battery 0: Discharging, 55%, 02:31:07 remaining'' @ [CHR 0x0A]))
   = Inr ''02:31''"
  by code_simp

text \<open>
  C4. When \<open>acpi -b\<close> succeeds and its output holds no time, as for a full battery,
  \<open>FindStringSubmatch\<close> returns the slice of length 0. The test for length 1 does not
  catch it, and the index expression \<open>acpiMatch[1]\<close> panics instead of the sampler
  returning \<open>"unknown"\<close>.
\<close>

theorem updatePowerTime_no_match_panics:
  "updatePowerTime (acpi_world (''Battery 0: Full, 100%'' @ [CHR 0x0A])) = Inl IndexOutOfRange"
  by code_simp

section \<open>The battery sampler\<close>

lemma half_percent: "wrap64 (quo (wrap64 250000) 5000) = 50"
  by (simp add: wrap64_def quo_def)

lemma battLoop_sums:
  "battLoop w batts (enFull, enNow) =
     (foldl (\<lambda>acc name. wrap64 (acc + readval w name ''full'')) enFull
        (filter (prefix ''BAT'') batts),
      foldl (\<lambda>acc name. wrap64 (acc + readval w name ''now'')) enNow
        (filter (prefix ''BAT'') batts))"
  by (induction batts arbitrary: enFull enNow) simp_all

lemma wrap64_id: "- (2 ^ 63) \<le> x \<Longrightarrow> x < 2 ^ 63 \<Longrightarrow> wrap64 x = x"
  by (simp add: wrap64_def)

lemma percentage_in_range:
  assumes "0 \<le> enNow" "enNow * 100 < 2 ^ 63" "0 < enFull"
  shows "wrap64 (quo (wrap64 (enNow * 100)) enFull) = enNow * 100 div enFull"
proof -
  have a: "0 \<le> enNow * 100" using assms(1) by simp
  then have w: "wrap64 (enNow * 100) = enNow * 100"
    using assms(2) by (intro wrap64_id) simp_all
  have q: "quo (enNow * 100) enFull = enNow * 100 div enFull"
    using a assms(3) by (rule quo_nonneg)
  have "0 \<le> enNow * 100 div enFull"
    using a assms(3) by (simp add: pos_imp_zdiv_nonneg_iff)
  moreover have "enNow * 100 div enFull \<le> enNow * 100"
    using a assms(3) zdiv_mono2 [of "enNow * 100" 1 enFull] by simp
  ultimately show ?thesis
    using assms(2) by (simp add: w q wrap64_id)
qed

text \<open>
  C5. When the plug-status file and the directory can be read and the summed capacity is
  not 0, the fragment shows \<open>enNow * 100 / enFull\<close> in Go's integer arithmetic, over
  the readings summed across the battery entries; without overflow and for readings
  that are not negative that is the integer quotient. For the sums 5000 and 2500 and a
  plug status other than \<open>"1\n"\<close> the fragment is the icon of the bucket up to 50, the
  second glyph and \<open>" 50%"\<close>; that icon is not the one of the bucket up to 75, with
  which the fragment does not begin.
\<close>

theorem updatePower_half:
  assumes AC: "read_file w (powerSupply @ ''AC/online'') = Some plugged"
    and dir: "read_dir w powerSupply = Some batts"
    and sumFull: "summedReading w ''full'' batts = enFull"
    and sumNow: "summedReading w ''now'' batts = enNow"
    and full: "enFull \<noteq> 0"
  shows "updatePower w =
           fst (powerIcons plugged (wrap64 (quo (wrap64 (enNow * 100)) enFull))) @
           snd (powerIcons plugged (wrap64 (quo (wrap64 (enNow * 100)) enFull))) @
           fmt_d 3 (wrap64 (quo (wrap64 (enNow * 100)) enFull)) @ ''%'' \<and>
         (0 \<le> enNow \<and> enNow * 100 < 2 ^ 63 \<and> 0 < enFull \<longrightarrow>
            wrap64 (quo (wrap64 (enNow * 100)) enFull) = enNow * 100 div enFull) \<and>
         (enFull = 5000 \<and> enNow = 2500 \<and> plugged \<noteq> [CHR ''1'', CHR 0x0A] \<longrightarrow>
            updatePower w = batterySign50 @ icon2Init @ '' 50%'' \<and>
            batterySign50 \<noteq> batterySign75 \<and> \<not> prefix batterySign75 (updatePower w))"
proof -
  let ?p = "wrap64 (quo (wrap64 (enNow * 100)) enFull)"
  have loop: "battLoop w batts (0, 0) = (enFull, enNow)"
    using sumFull sumNow by (simp add: battLoop_sums summedReading_def)
  have gen: "updatePower w =
      fst (powerIcons plugged ?p) @ snd (powerIcons plugged ?p) @ fmt_d 3 ?p @ ''%''"
    using AC dir loop full by (simp add: updatePower_def split_beta Let_def)
  have fifty: "fmt_d 3 50 = '' 50''"
    by (simp add: fmt_d_def itoa_def itoa_nat.simps digit_char_def)
  have half: "updatePower w = batterySign50 @ icon2Init @ '' 50%''"
    if "enFull = 5000" "enNow = 2500" "plugged \<noteq> [CHR ''1'', CHR 0x0A]"
    using that gen by (simp add: half_percent powerIcons_def fifty)
  have differ: "batterySign50 \<noteq> batterySign75"
    by (simp add: batterySign50_def batterySign75_def)
  have "\<not> prefix batterySign75 (batterySign50 @ icon2Init @ '' 50%'')"
    by (simp add: batterySign50_def batterySign75_def icon2Init_def)
  with half have not75: "\<not> prefix batterySign75 (updatePower w)"
    if "enFull = 5000" "enNow = 2500" "plugged \<noteq> [CHR ''1'', CHR 0x0A]"
    using that by simp
  have quot: "?p = enNow * 100 div enFull"
    if "0 \<le> enNow" "enNow * 100 < 2 ^ 63" "0 < enFull"
    using that by (rule percentage_in_range)
  show ?thesis using gen quot half differ not75 by blast
qed

theorem updatePower_half_witness:
  "read_file battery_world (powerSupply @ ''AC/online'') = Some [CHR ''0'', CHR 0x0A] \<and>
   read_dir battery_world powerSupply = Some [''AC'', ''BAT0'', ''BAT1''] \<and>
   summedReading battery_world ''full'' [''AC'', ''BAT0'', ''BAT1''] = 5000 \<and>
   summedReading battery_world ''now'' [''AC'', ''BAT0'', ''BAT1''] = 2500 \<and>
   updatePower battery_world = batterySign50 @ icon2Init @ '' 50%'' \<and>
   wrap64 (quo (wrap64 (2500 * 100)) 5000) = 2500 * 100 div 5000"
proof -
  have h1: "read_file battery_world (powerSupply @ ''AC/online'') = Some [CHR ''0'', CHR 0x0A]"
    by code_simp
  have h2: "read_dir battery_world powerSupply = Some [''AC'', ''BAT0'', ''BAT1'']"
    by code_simp
  have h3: "summedReading battery_world ''full'' [''AC'', ''BAT0'', ''BAT1''] = 5000"
    by code_simp
  have h4: "summedReading battery_world ''now'' [''AC'', ''BAT0'', ''BAT1''] = 2500"
    by code_simp
  have h5: "(5000::int) \<noteq> 0" by simp
  note main = updatePower_half [OF h1 h2 h3 h4 h5]
  from main [THEN conjunct2, THEN conjunct2]
  have out: "updatePower battery_world = batterySign50 @ icon2Init @ '' 50%''" by simp
  from main [THEN conjunct2, THEN conjunct1]
  have q: "wrap64 (quo (wrap64 (2500 * 100)) 5000) = 2500 * 100 div 5000" by simp
  from h1 h2 h3 h4 out q show ?thesis by (intro conjI)
qed

section \<open>The memory sampler\<close>

text \<open>
  C6. On the four lines of the claim the sampler leaves its loop with
  \<open>used = 16000000 - 8000000 - 1000000 - 2000000\<close>, \<open>total = 16000000\<close> and all four
  flags set, and its fragment reads \<open>4.77/15.26GB\<close> behind the icon: both figures
  divided twice by 1024 and printed with two decimal digits.
\<close>

theorem updateMemUse_example:
  "updateMemUse binary_lib meminfo_world = memSign @ '' 4.77/15.26GB'' \<and>
   memLoop binary_lib
     [''MemTotal: 16000000'', ''MemFree: 8000000'', ''Buffers: 1000000'', ''Cached: 2000000'']
     (0, 0, 0)
   = Some (16000000 - 8000000 - 1000000 - 2000000, 16000000, 15)"
  by code_simp

lemma bit_flag_values:
  "bit (1 :: int) k = (k = 0)" "bit (2 :: int) k = (k = 1)"
  "bit (4 :: int) k = (k = 2)" "bit (8 :: int) k = (k = 3)"
  using bit_exp_iff [where ?'a = int, of 0 k] bit_exp_iff [where ?'a = int, of 1 k]
    bit_exp_iff [where ?'a = int, of 2 k] bit_exp_iff [where ?'a = int, of 3 k]
  by simp_all

lemma bit_15: "k < 4 \<Longrightarrow> bit (15 :: int) k"
proof -
  have "(15 :: int) = or (or 1 2) (or 4 8)" by simp
  moreover assume "k < 4"
  then have "k = 0 \<or> k = 1 \<or> k = 2 \<or> k = 3" by linarith
  ultimately show ?thesis
    by (auto simp only: bit_or_iff bit_flag_values)
qed

lemma bit_flags:
  assumes "\<not> bit d k"
  shows "k \<noteq> 0 \<Longrightarrow> \<not> bit (or d (1 :: int)) k"
    and "k \<noteq> 1 \<Longrightarrow> \<not> bit (or d (2 :: int)) k"
    and "k \<noteq> 2 \<Longrightarrow> \<not> bit (or d (4 :: int)) k"
    and "k \<noteq> 3 \<Longrightarrow> \<not> bit (or d (8 :: int)) k"
  using assms by (simp_all only: bit_or_iff bit_flag_values simp_thms)

lemma memLabels_nth:
  "memLabels ! 0 = ''MemTotal:''" "memLabels ! 1 = ''MemFree:''"
  "memLabels ! 2 = ''Buffers:''" "memLabels ! 3 = ''Cached:''"
  by (simp_all add: memLabels_def)

text \<open>
  While the flag of a label is not set and the label does not occur, \<open>done\<close> cannot
  become 15: the loop reads every line and ends with the sums over the whole file.
\<close>

lemma memLoop_missing:
  assumes "map (sscanf_s_f64 lib) lines = map Some pairs"
    and "k < 4" and "memLabels ! k \<notin> fst ` set pairs" and "\<not> bit d k"
  shows "map_option (\<lambda>(u, t, d'). (u, t)) (memLoop lib lines (used, tot, d))
         = Some (memAccumulate lib pairs (used, tot))"
  using assms
proof (induction lines arbitrary: pairs used tot d)
  case Nil
  then show ?case by (simp add: memAccumulate_def)
next
  case (Cons line rest)
  from Cons.prems(1) obtain p v ps where pairs: "pairs = (p, v) # ps"
    and scan: "sscanf_s_f64 lib line = Some (p, v)"
    and rest: "map (sscanf_s_f64 lib) rest = map Some ps"
    by (cases pairs) auto
  from Cons.prems(2,4) have d15: "d \<noteq> 15"
    using bit_15 by blast
  from Cons.prems(3) pairs have pk: "p \<noteq> memLabels ! k" and psk: "memLabels ! k \<notin> fst ` set ps"
    by auto
  have step: "map_option (\<lambda>(u, t, d'). (u, t)) (memLoop lib rest (u', t', d'))
              = Some (memAccumulate lib ps (u', t'))" if "\<not> bit d' k" for u' t' d'
    using Cons.IH [OF rest Cons.prems(2) psk that] .
  note fl = bit_flags [OF Cons.prems(4)]
  consider (tot) "p = ''MemTotal:''" | (free) "p = ''MemFree:''" | (buf) "p = ''Buffers:''"
    | (cached) "p = ''Cached:''"
    | (other) "p \<noteq> ''MemTotal:''" "p \<noteq> ''MemFree:''" "p \<noteq> ''Buffers:''" "p \<noteq> ''Cached:''"
    by blast
  then show ?case
  proof cases
    case tot
    with pk have "k \<noteq> 0" using memLabels_nth(1) by metis
    then show ?thesis
      using tot scan d15 pairs step [OF fl(1)] by (simp add: memAccumulate_def)
  next
    case free
    with pk have "k \<noteq> 1" using memLabels_nth(2) by metis
    then show ?thesis
      using free scan d15 pairs step [OF fl(2)] by (simp add: memAccumulate_def)
  next
    case buf
    with pk have "k \<noteq> 2" using memLabels_nth(3) by metis
    then show ?thesis
      using buf scan d15 pairs step [OF fl(3)] by (simp add: memAccumulate_def)
  next
    case cached
    with pk have "k \<noteq> 3" using memLabels_nth(4) by metis
    then show ?thesis
      using cached scan d15 pairs step [OF fl(4)] by (simp add: memAccumulate_def)
  next
    case other
    then show ?thesis
      using scan d15 pairs step [OF Cons.prems(4)] by (simp add: memAccumulate_def)
  qed
qed

text \<open>
  C10. When the memory file opens, every line scans (to the list \<open>pairs\<close>) and one of
  the four labels occurs on no line, the sampler does not answer with its ERR fragment:
  its fragment prints the sums over the labels that do occur, scaled to gigabytes.
\<close>

theorem updateMemUse_missing_label:
  assumes opens: "open_lines w ''/proc/meminfo'' = Some lines"
    and parses: "map (sscanf_s_f64 lib) lines = map Some pairs"
    and label: "k < 4"
    and missing: "memLabels ! k \<notin> fst ` set pairs"
  shows "updateMemUse lib w \<noteq> memSign @ ''ERR'' \<and>
         updateMemUse lib w =
           memSign @ '' '' @
           fmt_f2 lib (gigabytes lib
             (fst (memAccumulate lib pairs (f64_of_int lib 0, f64_of_int lib 0)))) @
           ''/'' @
           fmt_f2 lib (gigabytes lib
             (snd (memAccumulate lib pairs (f64_of_int lib 0, f64_of_int lib 0)))) @
           ''GB''"
proof -
  have "\<not> bit (0 :: int) k" by simp
  from memLoop_missing [OF parses label missing this,
      where used = "f64_of_int lib 0" and tot = "f64_of_int lib 0"]
  obtain u t d where loop: "memLoop lib lines (f64_of_int lib 0, f64_of_int lib 0, 0) = Some (u, t, d)"
    and acc: "memAccumulate lib pairs (f64_of_int lib 0, f64_of_int lib 0) = (u, t)"
    by (cases "memLoop lib lines (f64_of_int lib 0, f64_of_int lib 0, 0)") auto
  have eq: "updateMemUse lib w =
      memSign @ '' '' @ fmt_f2 lib (gigabytes lib u) @ ''/'' @ fmt_f2 lib (gigabytes lib t) @ ''GB''"
    using opens loop by (simp add: updateMemUse_def gigabytes_def)
  then have "updateMemUse lib w \<noteq> memSign @ ''ERR''" by simp
  with eq acc show ?thesis by simp
qed

theorem updateMemUse_missing_label_witness:
  "open_lines meminfo_short ''/proc/meminfo'' =
     Some [''MemTotal: 16000000'', ''MemFree: 8000000'', ''Active: 5''] \<and>
   map (sscanf_s_f64 binary_lib) [''MemTotal: 16000000'', ''MemFree: 8000000'', ''Active: 5''] =
     map Some [(''MemTotal:'', 16000000), (''MemFree:'', 8000000), (''Active:'', 5)] \<and>
   updateMemUse binary_lib meminfo_short \<noteq> memSign @ ''ERR'' \<and>
   updateMemUse binary_lib meminfo_short = memSign @ '' 7.63/15.26GB''"
proof -
  have h1: "open_lines meminfo_short ''/proc/meminfo'' =
     Some [''MemTotal: 16000000'', ''MemFree: 8000000'', ''Active: 5'']"
    by code_simp
  have h2: "map (sscanf_s_f64 binary_lib)
       [''MemTotal: 16000000'', ''MemFree: 8000000'', ''Active: 5''] =
     map Some [(''MemTotal:'', 16000000), (''MemFree:'', 8000000), (''Active:'', 5)]"
    by code_simp
  have h3: "(2 :: nat) < 4" by simp
  have h4: "memLabels ! 2 \<notin>
      fst ` set [(''MemTotal:'', 16000000 :: rat), (''MemFree:'', 8000000), (''Active:'', 5)]"
    by (simp add: memLabels_def)
  have v: "updateMemUse binary_lib meminfo_short = memSign @ '' 7.63/15.26GB''"
    by code_simp
  from updateMemUse_missing_label [OF h1 h2 h3 h4]
  have n: "updateMemUse binary_lib meminfo_short \<noteq> memSign @ ''ERR''"
    by (rule conjunct1)
  from h1 h2 n v show ?thesis by (intro conjI)
qed

section \<open>The network sampler\<close>

lemma wrap64_zero: "wrap64 0 = 0"
  by (simp add: wrap64_def)

lemma fixed_zero: "fixed pre 0 = pre @ '' 0.0b''"
  by (simp add: fixed_def fmt_d_def itoa_def itoa_nat.simps digit_char_def
      floatSeparator_def bpsSign_def)

text \<open>
  C7. When the sampler runs twice, the statistics file opens both times and the loop
  sums to the same received and transmitted totals, the first run leaves these totals
  in \<open>rxOld\<close> and \<open>txOld\<close>, and the second run renders both rates as \<open>fixed\<close> renders
  the rate 0, which is \<open>" 0.0b"\<close> behind the icon.
\<close>

theorem updateNetUse_no_traffic:
  assumes o1: "open_lines w1 ''/proc/net/dev'' = Some lines1"
    and o2: "open_lines w2 ''/proc/net/dev'' = Some lines2"
    and same: "netLoop (sscanf_net lib) lines2 ([], 0, 0) (0, 0) =
               netLoop (sscanf_net lib) lines1 ([], 0, 0) (0, 0)"
    and t1: "updateNetUse lib w1 st = (out1, st1)"
    and t2: "updateNetUse lib w2 st1 = (out2, st2)"
  shows "out2 = fixed netReceivedSign 0 @ '' '' @ fixed netTransmittedSign 0 @ pingFragment lib w2 \<and>
         out2 = netReceivedSign @ '' 0.0b '' @ netTransmittedSign @ '' 0.0b'' @ pingFragment lib w2 \<and>
         rxOld st1 = fst (netLoop (sscanf_net lib) lines1 ([], 0, 0) (0, 0)) \<and>
         txOld st1 = snd (netLoop (sscanf_net lib) lines1 ([], 0, 0) (0, 0)) \<and>
         st2 = st1"
proof -
  obtain rx tx where tot: "netLoop (sscanf_net lib) lines1 ([], 0, 0) (0, 0) = (rx, tx)"
    by (cases "netLoop (sscanf_net lib) lines1 ([], 0, 0) (0, 0)")
  from t1 o1 tot have st1: "st1 = st\<lparr>rxOld := rx, txOld := tx\<rparr>"
    by (simp add: updateNetUse_def)
  from t2 o2 same tot st1
  have out2: "out2 =
      fixed netReceivedSign 0 @ '' '' @ fixed netTransmittedSign 0 @ pingFragment lib w2"
    and st2: "st2 = st1"
    by (simp_all add: updateNetUse_def wrap64_zero)
  show ?thesis using out2 st2 st1 tot by (simp add: fixed_zero)
qed

theorem updateNetUse_no_traffic_witness:
  "open_lines (net_world net_dev_lines) ''/proc/net/dev'' = Some net_dev_lines \<and>
   updateNetUse binary_lib (net_world net_dev_lines) \<lparr>rxOld = 0, txOld = 0\<rparr> =
     (netReceivedSign @ '' 4.9K '' @ netTransmittedSign @ '' 1.1K'',
      \<lparr>rxOld = 5000, txOld = 1200\<rparr>) \<and>
   fst (updateNetUse binary_lib (net_world net_dev_lines) \<lparr>rxOld = 5000, txOld = 1200\<rparr>) =
     netReceivedSign @ '' 0.0b '' @ netTransmittedSign @ '' 0.0b''"
proof -
  let ?w = "net_world net_dev_lines"
  have o: "open_lines ?w ''/proc/net/dev'' = Some net_dev_lines"
    by (simp add: net_world_def)
  have t1: "updateNetUse binary_lib ?w \<lparr>rxOld = 0, txOld = 0\<rparr> =
     (netReceivedSign @ '' 4.9K '' @ netTransmittedSign @ '' 1.1K'',
      \<lparr>rxOld = 5000, txOld = 1200\<rparr>)"
    by code_simp
  have t2: "updateNetUse binary_lib ?w \<lparr>rxOld = 5000, txOld = 1200\<rparr> =
     (fst (updateNetUse binary_lib ?w \<lparr>rxOld = 5000, txOld = 1200\<rparr>),
      snd (updateNetUse binary_lib ?w \<lparr>rxOld = 5000, txOld = 1200\<rparr>))"
    by simp
  have p: "pingFragment binary_lib ?w = []"
    by (simp add: pingFragment_def net_world_def absent_def)
  note second = updateNetUse_no_traffic [OF o o refl t1 t2, THEN conjunct2, THEN conjunct1]
  have "fst (updateNetUse binary_lib ?w \<lparr>rxOld = 5000, txOld = 1200\<rparr>) =
     netReceivedSign @ '' 0.0b '' @ netTransmittedSign @ '' 0.0b''"
    using second unfolding p by simp
  with o t1 show ?thesis by (intro conjI)
qed

section \<open>The tick loop\<close>

text \<open>
  C8. For every reading \<open>now\<close> of the clock the loop sleeps for one second minus the
  part of \<open>now\<close> beyond its last full second: more than nothing, at most one second, and
  ending exactly on a full second.
\<close>

theorem sleepDuration_next_second:
  "sleepDuration now = Second - now mod Second \<and> 0 < sleepDuration now \<and>
   sleepDuration now \<le> Second \<and> (now + sleepDuration now) mod Second = 0"
proof -
  have m: "0 \<le> now mod Second" "now mod Second < Second"
    by (simp_all add: Second_def)
  have eq: "sleepDuration now = Second - now mod Second"
    using m unfolding sleepDuration_def Sub_def Add_def Truncate_def Second_def by auto
  have "(now + (Second - now mod Second)) mod Second = (now - now mod Second + Second) mod Second"
    by (simp add: algebra_simps)
  also have "\<dots> = 0"
    by (simp add: minus_mod_eq_mult_div)
  finally show ?thesis using m eq by simp
qed

text \<open>
  C9. Each sampler whose file or command is missing answers with its fixed fragment and
  does not panic, the network sampler leaving its counters as they were; and when every
  source of a tick is missing, the tick still joins these fragments, the date and the
  distribution icon into the line that it publishes.
\<close>

theorem samplers_fall_back:
  "(command_output w ''pacmd'' [''list-sinks''] = None \<longrightarrow>
      updateVolume w = Inr (mutedSign @ '' ERR'')) \<and>
   (command_output w ''awk'' [awkProgram, ''/proc/net/wireless''] = None \<longrightarrow>
      updateWifi w = wifiSignOff @ '' ERR'') \<and>
   (open_lines w ''/proc/net/dev'' = None \<longrightarrow>
      updateNetUse lib w st = (netReceivedSign @ '' ERR '' @ netTransmittedSign @ '' ERR'', st)) \<and>
   (read_file w ''/proc/loadavg'' = None \<longrightarrow> updateCPUUse lib cores w = cpuSign @ ''ERR'') \<and>
   (open_lines w ''/sys/class/thermal/thermal_zone1/temp'' = None \<longrightarrow>
      updateCPUTemp w = cpuTempSign @ '' ERR'') \<and>
   (open_lines w ''/proc/meminfo'' = None \<longrightarrow> updateMemUse lib w = memSign @ ''ERR'') \<and>
   (read_file w (powerSupply @ ''AC/online'') = None \<or> read_dir w powerSupply = None \<longrightarrow>
      updatePower w = ''|ERR'') \<and>
   (command_output w ''acpi'' [''-b''] = None \<longrightarrow> updatePowerTime w = Inr ''unknown'') \<and>
   (open_lines w ''/home/john/.config/xmodmap_switcher/state'' = None \<longrightarrow>
      updateKeyboard w = keyboardSign @ '' default'') \<and>
   (command_output w ''uname'' [''-a''] = None \<longrightarrow> getDistroSign w = Inr distroSignDefault) \<and>
   (all_absent w \<longrightarrow>
      tick lib cores distroSign w st =
        Inr (Join [[], mutedSign @ '' ERR'', wifiSignOff @ '' ERR'',
                   netReceivedSign @ '' ERR '' @ netTransmittedSign @ '' ERR'',
                   cpuSign @ ''ERR'', cpuTempSign @ '' ERR'', memSign @ ''ERR'', ''|ERR'',
                   ''unknown'', dateSeparator @ '' '' @ clock_text w,
                   keyboardSign @ '' default'', distroSign]
               fieldSeparator,
             st))"
proof (intro conjI impI)
  show "updateVolume w = Inr (mutedSign @ '' ERR'')"
    if "command_output w ''pacmd'' [''list-sinks''] = None"
    using that by (simp add: updateVolume_def)
  show "updateWifi w = wifiSignOff @ '' ERR''"
    if "command_output w ''awk'' [awkProgram, ''/proc/net/wireless''] = None"
    using that by (simp add: updateWifi_def)
  show "updateNetUse lib w st = (netReceivedSign @ '' ERR '' @ netTransmittedSign @ '' ERR'', st)"
    if "open_lines w ''/proc/net/dev'' = None"
    using that by (simp add: updateNetUse_def)
  show "updateCPUUse lib cores w = cpuSign @ ''ERR''" if "read_file w ''/proc/loadavg'' = None"
    using that by (simp add: updateCPUUse_def)
  show "updateCPUTemp w = cpuTempSign @ '' ERR''"
    if "open_lines w ''/sys/class/thermal/thermal_zone1/temp'' = None"
    using that by (simp add: updateCPUTemp_def)
  show "updateMemUse lib w = memSign @ ''ERR''" if "open_lines w ''/proc/meminfo'' = None"
    using that by (simp add: updateMemUse_def)
  show "updatePower w = ''|ERR''"
    if "read_file w (powerSupply @ ''AC/online'') = None \<or> read_dir w powerSupply = None"
    using that by (auto simp: updatePower_def split: option.split)
  show "updatePowerTime w = Inr ''unknown''" if "command_output w ''acpi'' [''-b''] = None"
    using that by (simp add: updatePowerTime_def)
  show "updateKeyboard w = keyboardSign @ '' default''"
    if "open_lines w ''/home/john/.config/xmodmap_switcher/state'' = None"
    using that by (simp add: updateKeyboard_def)
  show "getDistroSign w = Inr distroSignDefault" if "command_output w ''uname'' [''-a''] = None"
    using that by (simp add: getDistroSign_def)
  show "tick lib cores distroSign w st =
        Inr (Join [[], mutedSign @ '' ERR'', wifiSignOff @ '' ERR'',
                   netReceivedSign @ '' ERR '' @ netTransmittedSign @ '' ERR'',
                   cpuSign @ ''ERR'', cpuTempSign @ '' ERR'', memSign @ ''ERR'', ''|ERR'',
                   ''unknown'', dateSeparator @ '' '' @ clock_text w,
                   keyboardSign @ '' default'', distroSign]
               fieldSeparator,
             st)"
    if "all_absent w"
    using that
    by (simp add: all_absent_def tick_def updateVolume_def updateWifi_def updateNetUse_def
        updateCPUUse_def updateCPUTemp_def updateMemUse_def updatePower_def updatePowerTime_def
        updateKeyboard_def)
qed

theorem samplers_fall_back_witness:
  "all_absent absent \<and> command_output absent ''uname'' [''-a''] = None \<and>
   getDistroSign absent = Inr distroSignDefault \<and>
   tick binary_lib 4 distroSignDefault absent \<lparr>rxOld = 0, txOld = 0\<rparr> =
     Inr (Join [[], mutedSign @ '' ERR'', wifiSignOff @ '' ERR'',
                netReceivedSign @ '' ERR '' @ netTransmittedSign @ '' ERR'',
                cpuSign @ ''ERR'', cpuTempSign @ '' ERR'', memSign @ ''ERR'', ''|ERR'',
                ''unknown'', dateSeparator @ '' '' @ clock_text absent,
                keyboardSign @ '' default'', distroSignDefault]
            fieldSeparator,
          \<lparr>rxOld = 0, txOld = 0\<rparr>)"
proof -
  have a: "all_absent absent"
    by (simp add: all_absent_def absent_def)
  have u: "command_output absent ''uname'' [''-a''] = None"
    by (simp add: absent_def)
  from samplers_fall_back [of absent binary_lib "\<lparr>rxOld = 0, txOld = 0\<rparr>" 4 distroSignDefault] a u
  show ?thesis by blast
qed

end
